theory Spec2Isabelle
  imports Main
begin

section \<open>The verification service of sourcify\<close>

text \<open>
  A shallow embedding of \<^verbatim>\<open>services/verification/src/services/VerificationService.ts\<close>.
  The class \<^verbatim>\<open>VerificationService\<close> has seven methods: \<^verbatim>\<open>getMetadataFromJsonInput\<close>,
  \<^verbatim>\<open>findByAddress\<close>, \<^verbatim>\<open>findAllByAddress\<close>, and the four methods that forward to the
  lazily constructed \<^verbatim>\<open>Injector\<close>: \<^verbatim>\<open>inject\<close>, \<^verbatim>\<open>verifyCreate2\<close>, \<^verbatim>\<open>recompile\<close>,
  \<^verbatim>\<open>getBytecode\<close>.

  What the class imports and does not define (\<^verbatim>\<open>useCompiler\<close>, the file service, the
  \<^verbatim>\<open>Injector\<close>, \<^verbatim>\<open>JSON.parse\<close>) is a parameter of the method that calls it: a function
  whose result is \<open>Inl e\<close> when the call throws \<open>e\<close> and \<open>Inr v\<close> when it returns \<open>v\<close>.
  A method of the class returns the same kind of result, paired with what it changed.
\<close>

subsection \<open>Thrown values and log entries\<close>

text \<open>
  A thrown JavaScript value: an \<^verbatim>\<open>Error\<close>, \<^verbatim>\<open>TypeError\<close> or \<^verbatim>\<open>SyntaxError\<close> object with
  its message. The class itself only ever constructs \<^verbatim>\<open>new Error(...)\<close> (lines 60 and 79);
  there is no error class of its own.
\<close>

datatype error = Error string | TypeError string | SyntaxError string

fun message :: "error \<Rightarrow> string" where
  "message (Error m) = m"
| "message (TypeError m) = m"
| "message (SyntaxError m) = m"

text \<open>
  The two calls of the logger: \<^verbatim>\<open>this.logger.error({loc, contractPath, contractName,
  compilerVersion, errorMessages})\<close> of lines 72-78 and \<^verbatim>\<open>this.logger.info({loc, address},
  msg)\<close> of lines 94-100 and 112-118. Each method returns the entries it wrote, in order.
\<close>

datatype log_entry =
    Log_error string string string string string
  | Log_info string string string

subsection \<open>Strings\<close>

text \<open>
  \<^verbatim>\<open>String.prototype.trim\<close> removes white space and line terminators from both ends. Of
  the characters of ECMAScript's \<^verbatim>\<open>WhiteSpace\<close> and \<^verbatim>\<open>LineTerminator\<close>, those that an
  8-bit \<^typ>\<open>char\<close> can hold are TAB, LF, VT, FF, CR, SP and NBSP.
\<close>

definition is_whitespace :: "char \<Rightarrow> bool" where
  "is_whitespace c \<longleftrightarrow>
     c \<in> {CHR 0x09, CHR 0x0A, CHR 0x0B, CHR 0x0C, CHR 0x0D, CHR 0x20, CHR 0xA0}"

definition trimStart :: "string \<Rightarrow> string" where
  "trimStart s = dropWhile is_whitespace s"

definition trim :: "string \<Rightarrow> string" where
  "trim s = rev (trimStart (rev (trimStart s)))"

text \<open>\<^verbatim>\<open>Array.prototype.join\<close> on an array of strings.\<close>

fun join :: "string \<Rightarrow> string list \<Rightarrow> string" where
  "join sep [] = []"
| "join sep [x] = x"
| "join sep (x # y # ys) = x @ sep @ join sep (y # ys)"

subsection \<open>The compiler's output\<close>

text \<open>
  The part of the compiler's output that \<^verbatim>\<open>getMetadataFromJsonInput\<close> reads:
  \<^verbatim>\<open>output.contracts[path][name].metadata\<close> and \<^verbatim>\<open>output.errors[i].severity\<close>,
  \<^verbatim>\<open>.formattedMessage\<close>. A JavaScript object is an association list in the order of its
  keys, since \<^verbatim>\<open>findContractPathFromContractName\<close> walks them; \<open>obj[key]\<close> is \<^const>\<open>map_of\<close>. A
  property that is \<^verbatim>\<open>undefined\<close> is \<open>None\<close>.
\<close>

record artifact =
  metadata :: "string option"

type_synonym contract_list = "(string \<times> artifact) list"

type_synonym contracts_map = "(string \<times> contract_list) list"

record diagnostic =
  severity :: string
  formattedMessage :: string

record compiler_output =
  contracts :: "contracts_map option"
  errors :: "diagnostic list option"

subsection \<open>Finding the contract's file\<close>

text \<open>
  Modelled from the spec: \<^verbatim>\<open>findContractPathFromContractName\<close> is imported from
  \<^verbatim>\<open>../utils\<close> (line 12), which is not among the sources. The specification (section
  4.2, step 2, and section 9) describes it: it searches the mapping from file paths to
  contract sets for the file path whose contract set contains the contract name, takes the
  first match in the mapping's iteration order, and gives an absent path when there is none.
  What it does with an absent mapping (\<^verbatim>\<open>output.contracts\<close> being \<^verbatim>\<open>undefined\<close>) is not
  described: that result is the parameter \<open>on_undefined\<close>.
\<close>

fun findContractPathFromContractName ::
  "(error + string option) \<Rightarrow> contracts_map option \<Rightarrow> string \<Rightarrow> error + string option" where
  "findContractPathFromContractName on_undefined None contractName = on_undefined"
| "findContractPathFromContractName on_undefined (Some []) contractName = Inr None"
| "findContractPathFromContractName on_undefined (Some ((path, contractsList) # rest)) contractName =
     (if contractName \<in> set (map fst contractsList) then Inr (Some path)
      else findContractPathFromContractName on_undefined (Some rest) contractName)"

subsection \<open>getMetadataFromJsonInput (lines 44-85)\<close>

text \<open>
  The condition of lines 62-67, negated: the value of
  \<^verbatim>\<open>output.contracts[contractPath][contractName].metadata\<close> when \<^verbatim>\<open>output.contracts\<close>,
  \<^verbatim>\<open>output.contracts[contractPath]\<close>, \<^verbatim>\<open>output.contracts[contractPath][contractName]\<close> and
  that metadata are all truthy. An object is truthy; \<^verbatim>\<open>undefined\<close> and the empty string
  are falsy.
\<close>

definition truthy_metadata :: "compiler_output \<Rightarrow> string \<Rightarrow> string \<Rightarrow> string option" where
  "truthy_metadata output contractPath contractName =
     (case contracts output of
        None \<Rightarrow> None
      | Some cs \<Rightarrow>
          (case map_of cs contractPath of
             None \<Rightarrow> None
           | Some contractsList \<Rightarrow>
               (case map_of contractsList contractName of
                  None \<Rightarrow> None
                | Some a \<Rightarrow>
                    (case metadata a of
                       None \<Rightarrow> None
                     | Some md \<Rightarrow> if md = [] then None else Some md))))"

text \<open>
  Lines 68-71: \<^verbatim>\<open>output.errors.filter(e => e.severity === "error").map(e =>
  e.formattedMessage).join("\n")\<close>.
\<close>

definition errorMessages_of :: "diagnostic list \<Rightarrow> string" where
  "errorMessages_of es =
     join ''\<newline>'' (map formattedMessage (filter (\<lambda>e. severity e = ''error'') es))"

text \<open>
  The method. Its parameters are the three functions it calls and does not define:
  \<^verbatim>\<open>useCompiler\<close> (line 49; the logger it is handed is left out),
  \<^verbatim>\<open>findContractPathFromContractName\<close> (line 54) and \<^verbatim>\<open>JSON.parse\<close> (line 82).
  \<^verbatim>\<open>!contractPath\<close> (line 59) holds for \<^verbatim>\<open>null\<close> and for the empty string. Reading
  \<^verbatim>\<open>output.errors.filter\<close> (lines 68-69) when \<^verbatim>\<open>output.errors\<close> is \<^verbatim>\<open>undefined\<close> throws
  a \<^verbatim>\<open>TypeError\<close> (the message is V8's).
\<close>

definition reading_filter_of_undefined :: string where
  "reading_filter_of_undefined =
     ''Cannot read properties of undefined (reading '' @ [CHR 0x27] @ ''filter'' @ [CHR 0x27] @ '')''"

definition getMetadataFromJsonInput ::
  "(string \<Rightarrow> 'i \<Rightarrow> error + compiler_output) \<Rightarrow>
   (contracts_map option \<Rightarrow> string \<Rightarrow> error + string option) \<Rightarrow>
   (string \<Rightarrow> error + 'j) \<Rightarrow>
   string \<Rightarrow> string \<Rightarrow> 'i \<Rightarrow> (error + 'j) \<times> log_entry list" where
  "getMetadataFromJsonInput useCompiler findPath JSON_parse compilerVersion contractName compilerJson =
     (case useCompiler compilerVersion compilerJson of
        Inl e \<Rightarrow> (Inl e, [])
      | Inr output \<Rightarrow>
          (case findPath (contracts output) contractName of
             Inl e \<Rightarrow> (Inl e, [])
           | Inr None \<Rightarrow>
               (Inl (Error (''Contract '' @ contractName @ '' not found in compiler output'')), [])
           | Inr (Some contractPath) \<Rightarrow>
               if contractPath = [] then
                 (Inl (Error (''Contract '' @ contractName @ '' not found in compiler output'')), [])
               else
                 (case truthy_metadata output contractPath contractName of
                    None \<Rightarrow>
                      (case errors output of
                         None \<Rightarrow>
                           (Inl (TypeError reading_filter_of_undefined), [])
                       | Some es \<Rightarrow>
                           (Inl (Error (''Compiler error:\<newline> '' @ errorMessages_of es)),
                            [Log_error ''[VERIFY-WITH-JSON]'' contractPath contractName
                               compilerVersion (errorMessages_of es)]))
                  | Some md \<Rightarrow> (JSON_parse (trim md), []))))"

subsection \<open>findByAddress and findAllByAddress (lines 87-121)\<close>

text \<open>
  The parameter is the file service's method of the same name, which returns the matches
  or throws. The \<^verbatim>\<open>try\<close> ... \<^verbatim>\<open>catch\<close> is the case distinction on its result: on a throw,
  \<^verbatim>\<open>matches\<close> keeps its initial value \<^verbatim>\<open>[]\<close> and the logger is called.
\<close>

definition findByAddress ::
  "(string \<Rightarrow> string \<Rightarrow> error + 'm list) \<Rightarrow> string \<Rightarrow> string \<Rightarrow> (error + 'm list) \<times> log_entry list" where
  "findByAddress fileService_findByAddress address chain =
     (case fileService_findByAddress address chain of
        Inr matches \<Rightarrow> (Inr matches, [])
      | Inl err \<Rightarrow>
          (Inr [], [Log_info ''[POST:VERIFICATION_BY_ADDRESS_FAILED]'' address
                      ''Could not find file in repository'']))"

definition findAllByAddress ::
  "(string \<Rightarrow> string \<Rightarrow> error + 'm list) \<Rightarrow> string \<Rightarrow> string \<Rightarrow> (error + 'm list) \<times> log_entry list" where
  "findAllByAddress fileService_findAllByAddress address chain =
     (case fileService_findAllByAddress address chain of
        Inr matches \<Rightarrow> (Inr matches, [])
      | Inl err \<Rightarrow>
          (Inr [], [Log_info ''[POST:VERIFICATION_BY_ADDRESS_FAILED]'' address
                      ''Could not find file in repository'']))"

subsection \<open>The options of the Injector (lines 125-130)\<close>

text \<open>
  The numbers \<^verbatim>\<open>parseInt\<close> can return: \<^verbatim>\<open>NaN\<close>, a double whose value is an integer, and
  the two infinities. \<^verbatim>\<open>-0\<close> is \<open>Number 0\<close>: both zeros are falsy, and nothing here tells
  them apart.
\<close>

datatype number = NaN | Number int | PlusInfinity | MinusInfinity

text \<open>
  The double nearest to a natural number, ties to the even significand, as ECMAScript's
  conversion of a mathematical value to a Number: a number below \<open>2^53\<close> is itself; a larger
  one keeps its 53 leading bits, rounded; a result of \<open>2^1024\<close> or more is infinite, here
  \<open>None\<close>.
\<close>

fun bit_length :: "nat \<Rightarrow> nat" where
  "bit_length n = (if n = 0 then 0 else Suc (bit_length (n div 2)))"

declare bit_length.simps [simp del]

definition nearest_double :: "nat \<Rightarrow> nat option" where
  "nearest_double n =
     (if n < 2 ^ 53 then Some n
      else
        (let e = bit_length n - 53;
             q = n div 2 ^ e;
             r = n mod 2 ^ e;
             q' = (if 2 ^ e < 2 * r \<or> (2 * r = 2 ^ e \<and> odd q) then q + 1 else q)
         in if q' * 2 ^ e < 2 ^ 1024 then Some (q' * 2 ^ e) else None))"

text \<open>
  \<^verbatim>\<open>parseInt(string)\<close> with no radix, after ECMAScript's definition: leading white space is
  skipped, then a sign, then \<^verbatim>\<open>0x\<close> or \<^verbatim>\<open>0X\<close> (which makes the radix 16), and the longest run
  of digits of the radix is read; with no digit the result is \<^verbatim>\<open>NaN\<close>, otherwise the double
  nearest to the integer read, with the sign. (ECMAScript lets an implementation read the
  decimal digits after the twentieth as zeros; here every digit is read.)
\<close>

definition digit_value :: "char \<Rightarrow> nat" where
  "digit_value c =
     (let n = (of_char c :: nat) in
      if 48 \<le> n \<and> n \<le> 57 then n - 48
      else if 97 \<le> n \<and> n \<le> 122 then n - 87
      else if 65 \<le> n \<and> n \<le> 90 then n - 55
      else 36)"

definition parseInt :: "string \<Rightarrow> number" where
  "parseInt inputString =
     (let S = trimStart inputString;
          sign = (if take 1 S = ''-'' then - 1 else 1 :: int);
          S1 = (if take 1 S = ''+'' \<or> take 1 S = ''-'' then drop 1 S else S);
          hex = (take 2 S1 = ''0x'' \<or> take 2 S1 = ''0X'');
          R = (if hex then 16 else 10 :: nat);
          S2 = (if hex then drop 2 S1 else S1);
          Z = takeWhile (\<lambda>c. digit_value c < R) S2
      in if Z = [] then NaN
         else
           (case nearest_double (foldl (\<lambda>acc c. acc * R + digit_value c) 0 Z) of
              None \<Rightarrow> if sign < 0 then MinusInfinity else PlusInfinity
            | Some m \<Rightarrow> Number (sign * int m)))"

text \<open>
  Line 129: \<^verbatim>\<open>parseInt(process.env.WEB3_TIMEOUT || "") || undefined\<close>. The first \<^verbatim>\<open>||\<close>
  replaces an unset or empty variable by the empty string; the second replaces a falsy
  number, \<^verbatim>\<open>NaN\<close> or zero, by \<^verbatim>\<open>undefined\<close>.
\<close>

definition web3timeout_of :: "string option \<Rightarrow> number option" where
  "web3timeout_of WEB3_TIMEOUT =
     (case parseInt (case WEB3_TIMEOUT of None \<Rightarrow> [] | Some v \<Rightarrow> if v = [] then [] else v) of
        NaN \<Rightarrow> None
      | Number n \<Rightarrow> if n = 0 then None else Some (Number n)
      | PlusInfinity \<Rightarrow> Some PlusInfinity
      | MinusInfinity \<Rightarrow> Some MinusInfinity)"

text \<open>
  The object handed to \<^verbatim>\<open>Injector.createAsync\<close>. Its \<^verbatim>\<open>log\<close> and \<^verbatim>\<open>fileService\<close> are
  references to the service's own logger and file service and carry no data here.
\<close>

record injector_options =
  repositoryPath :: string
  web3timeout :: "number option"

subsection \<open>What the service is given\<close>

text \<open>
  The file service's \<^verbatim>\<open>repositoryPath\<close>, the environment variable, and the \<^verbatim>\<open>Injector\<close>:
  its static \<^verbatim>\<open>createAsync\<close> and the four methods the service forwards to. An injector
  is a value of type \<open>'e\<close>, an argument of type \<^verbatim>\<open>InjectorInput\<close>, \<^verbatim>\<open>CheckedContract\<close> or
  \<^verbatim>\<open>any\<close> a value of type \<open>'v\<close>, and a result one of type \<open>'r\<close>. \<^verbatim>\<open>Injector.createAsync\<close>
  is given, besides the options, the number of its earlier calls by this service, so that
  it may return a new instance each time, and fail at one call and succeed at the next.
\<close>

record ('v, 'r, 'e) collaborators =
  fileService_repositoryPath :: string
  env_WEB3_TIMEOUT :: "string option"
  Injector_createAsync :: "nat \<Rightarrow> injector_options \<Rightarrow> error + 'e"
  Injector_inject :: "'e \<Rightarrow> 'v \<Rightarrow> error + 'r"
  Injector_verifyCreate2 :: "'e \<Rightarrow> 'v \<Rightarrow> string \<Rightarrow> string \<Rightarrow> 'v \<Rightarrow> string \<Rightarrow> error + 'r"
  Injector_recompile :: "'e \<Rightarrow> 'v \<Rightarrow> error + 'r"
  Injector_getBytecode :: "'e \<Rightarrow> string \<Rightarrow> string \<Rightarrow> error + 'r"

definition createAsync_options :: "('v, 'r, 'e) collaborators \<Rightarrow> injector_options" where
  "createAsync_options X =
     \<lparr>repositoryPath = fileService_repositoryPath X,
      web3timeout = web3timeout_of (env_WEB3_TIMEOUT X)\<rparr>"

subsection \<open>The state of the service\<close>

text \<open>
  The one field the methods write is \<^verbatim>\<open>private injector: Injector | undefined\<close> (line 37).
  \<open>createAsync_calls\<close> is not a field of the class: it records the options of every call
  of \<^verbatim>\<open>Injector.createAsync\<close> the service has made, oldest first, so that constructions
  can be counted.
\<close>

record 'e service =
  injector :: "'e option"
  createAsync_calls :: "injector_options list"

definition new_service :: "'e service" where
  "new_service = \<lparr>injector = None, createAsync_calls = []\<rparr>"

subsection \<open>The four forwarding methods, one call at a time (lines 123-185)\<close>

text \<open>
  Lines 124-131, which each of the four methods starts with: when the field is unset,
  construct an injector and store it. The result is the injector the method then uses, or
  the error of the construction, which the \<^verbatim>\<open>await\<close> rethrows before the field is written.
\<close>

definition ensure_injector ::
  "('v, 'r, 'e) collaborators \<Rightarrow> 'e service \<Rightarrow> (error + 'e) \<times> 'e service" where
  "ensure_injector X s =
     (case injector s of
        Some inst \<Rightarrow> (Inr inst, s)
      | None \<Rightarrow>
          (let s' = s\<lparr>createAsync_calls := createAsync_calls s @ [createAsync_options X]\<rparr>
           in case Injector_createAsync X (length (createAsync_calls s)) (createAsync_options X) of
                Inl e \<Rightarrow> (Inl e, s')
              | Inr inst \<Rightarrow> (Inr inst, s'\<lparr>injector := Some inst\<rparr>)))"

definition inject ::
  "('v, 'r, 'e) collaborators \<Rightarrow> 'e service \<Rightarrow> 'v \<Rightarrow> (error + 'r) \<times> 'e service" where
  "inject X s injectorInput =
     (case ensure_injector X s of
        (Inl e, s') \<Rightarrow> (Inl e, s')
      | (Inr inst, s') \<Rightarrow> (Injector_inject X inst injectorInput, s'))"

definition verifyCreate2 ::
  "('v, 'r, 'e) collaborators \<Rightarrow> 'e service \<Rightarrow> 'v \<Rightarrow> string \<Rightarrow> string \<Rightarrow> 'v \<Rightarrow> string \<Rightarrow>
   (error + 'r) \<times> 'e service" where
  "verifyCreate2 X s contract deployerAddress salt constructorArgs create2Address =
     (case ensure_injector X s of
        (Inl e, s') \<Rightarrow> (Inl e, s')
      | (Inr inst, s') \<Rightarrow>
          (Injector_verifyCreate2 X inst contract deployerAddress salt constructorArgs create2Address,
           s'))"

definition recompile ::
  "('v, 'r, 'e) collaborators \<Rightarrow> 'e service \<Rightarrow> 'v \<Rightarrow> (error + 'r) \<times> 'e service" where
  "recompile X s contract =
     (case ensure_injector X s of
        (Inl e, s') \<Rightarrow> (Inl e, s')
      | (Inr inst, s') \<Rightarrow> (Injector_recompile X inst contract, s'))"

definition getBytecode ::
  "('v, 'r, 'e) collaborators \<Rightarrow> 'e service \<Rightarrow> string \<Rightarrow> string \<Rightarrow> (error + 'r) \<times> 'e service" where
  "getBytecode X s address chainId =
     (case ensure_injector X s of
        (Inl e, s') \<Rightarrow> (Inl e, s')
      | (Inr inst, s') \<Rightarrow> (Injector_getBytecode X inst address chainId, s'))"

text \<open>A call of one of the four methods with its arguments, and a sequence of such calls,
  each made after the one before it has settled.\<close>

datatype 'v call =
    Inject 'v
  | VerifyCreate2 'v string string 'v string
  | Recompile 'v
  | GetBytecode string string

fun perform :: "('v, 'r, 'e) collaborators \<Rightarrow> 'e service \<Rightarrow> 'v call \<Rightarrow> (error + 'r) \<times> 'e service" where
  "perform X s (Inject injectorInput) = inject X s injectorInput"
| "perform X s (VerifyCreate2 contract deployerAddress salt constructorArgs create2Address) =
     verifyCreate2 X s contract deployerAddress salt constructorArgs create2Address"
| "perform X s (Recompile contract) = recompile X s contract"
| "perform X s (GetBytecode address chainId) = getBytecode X s address chainId"

fun perform_all ::
  "('v, 'r, 'e) collaborators \<Rightarrow> 'e service \<Rightarrow> 'v call list \<Rightarrow> (error + 'r) list \<times> 'e service" where
  "perform_all X s [] = ([], s)"
| "perform_all X s (c # cs) =
     (case perform X s c of
        (r, s') \<Rightarrow> (case perform_all X s' cs of (rs, s'') \<Rightarrow> (r # rs, s'')))"

text \<open>What the injector's own method returns for a call.\<close>

fun forwarded :: "('v, 'r, 'e) collaborators \<Rightarrow> 'e \<Rightarrow> 'v call \<Rightarrow> error + 'r" where
  "forwarded X inst (Inject injectorInput) = Injector_inject X inst injectorInput"
| "forwarded X inst (VerifyCreate2 contract deployerAddress salt constructorArgs create2Address) =
     Injector_verifyCreate2 X inst contract deployerAddress salt constructorArgs create2Address"
| "forwarded X inst (Recompile contract) = Injector_recompile X inst contract"
| "forwarded X inst (GetBytecode address chainId) = Injector_getBytecode X inst address chainId"

subsection \<open>The four forwarding methods as asynchronous functions\<close>

text \<open>
  Each of the four methods is an \<^verbatim>\<open>async\<close> function with one \<^verbatim>\<open>await\<close> of its own, at
  \<^verbatim>\<open>await Injector.createAsync(...)\<close>. JavaScript runs the body of a call without
  interruption up to that \<^verbatim>\<open>await\<close>, suspends the call there, and runs the rest, again
  without interruption, once the construction has settled; other calls may run in between.
  A call that finds the field set does not reach the \<^verbatim>\<open>await\<close>.

  So a call is in one of three states: made and not yet begun, suspended at the \<^verbatim>\<open>await\<close>
  with the result the construction will settle to, or past its last line, with the injector
  it used (if any) and what it returns or throws.
\<close>

datatype ('v, 'r, 'e) task =
    Called "'v call"
  | Awaiting "error + 'e" "'v call"
  | Settled "'e option" "error + 'r"

text \<open>From the call to the \<^verbatim>\<open>await\<close>: the test \<^verbatim>\<open>!this.injector\<close> and, when it holds, the
  call of \<^verbatim>\<open>Injector.createAsync\<close>.\<close>

definition begin_call ::
  "('v, 'r, 'e) collaborators \<Rightarrow> 'e service \<Rightarrow> 'v call \<Rightarrow> ('v, 'r, 'e) task \<times> 'e service" where
  "begin_call X s c =
     (case injector s of
        Some inst \<Rightarrow> (Settled (Some inst) (forwarded X inst c), s)
      | None \<Rightarrow>
          (Awaiting (Injector_createAsync X (length (createAsync_calls s)) (createAsync_options X)) c,
           s\<lparr>createAsync_calls := createAsync_calls s @ [createAsync_options X]\<rparr>))"

text \<open>From the \<^verbatim>\<open>await\<close> to the end: a failed construction is rethrown; a constructed
  injector is stored in the field and the call is forwarded to it.\<close>

definition settled_with ::
  "('v, 'r, 'e) collaborators \<Rightarrow> error + 'e \<Rightarrow> 'v call \<Rightarrow> ('v, 'r, 'e) task" where
  "settled_with X r c =
     (case r of
        Inl e \<Rightarrow> Settled None (Inl e)
      | Inr inst \<Rightarrow> Settled (Some inst) (forwarded X inst c))"

definition resume_call ::
  "('v, 'r, 'e) collaborators \<Rightarrow> 'e service \<Rightarrow> error + 'e \<Rightarrow> 'v call \<Rightarrow>
   ('v, 'r, 'e) task \<times> 'e service" where
  "resume_call X s r c =
     (settled_with X r c,
      case r of Inl e \<Rightarrow> s | Inr inst \<Rightarrow> s\<lparr>injector := Some inst\<rparr>)"

text \<open>One step of the service with several calls in flight: some call that has not begun
  begins, or some suspended call resumes.\<close>

inductive step ::
  "('v, 'r, 'e) collaborators \<Rightarrow> 'e service \<times> ('v, 'r, 'e) task list \<Rightarrow>
   'e service \<times> ('v, 'r, 'e) task list \<Rightarrow> bool"
  for X :: "('v, 'r, 'e) collaborators" where
  begins: "i < length ts \<Longrightarrow> ts ! i = Called c \<Longrightarrow> begin_call X s c = (t, s') \<Longrightarrow>
           step X (s, ts) (s', ts[i := t])"
| resumes: "i < length ts \<Longrightarrow> ts ! i = Awaiting r c \<Longrightarrow> resume_call X s r c = (t, s') \<Longrightarrow>
            step X (s, ts) (s', ts[i := t])"

code_pred step .

text \<open>Calls made one after the other before any construction has settled, as in
  \<^verbatim>\<open>Promise.all([service.inject(a), service.inject(b)])\<close>: each runs up to its \<^verbatim>\<open>await\<close>.\<close>

fun begin_all ::
  "('v, 'r, 'e) collaborators \<Rightarrow> 'e service \<Rightarrow> 'v call list \<Rightarrow>
   ('v, 'r, 'e) task list \<times> 'e service" where
  "begin_all X s [] = ([], s)"
| "begin_all X s (c # cs) =
     (case begin_call X s c of
        (t, s') \<Rightarrow> (case begin_all X s' cs of (ts, s'') \<Rightarrow> (t # ts, s'')))"

subsection \<open>Inputs for the examples\<close>

text \<open>The compiler output of the specification's scenarios (section 8), with one
  diagnostic of severity \<^verbatim>\<open>error\<close>.\<close>

definition scenario_contracts :: contracts_map where
  \<open>scenario_contracts = [(''A.sol'', [(''Foo'', \<lparr>metadata = Some ''{"version":1}''\<rparr>)])]\<close>

definition scenario_output :: compiler_output where
  "scenario_output =
     \<lparr>contracts = Some scenario_contracts,
      errors = Some [\<lparr>severity = ''error'', formattedMessage = ''syntax error''\<rparr>]\<rparr>"

text \<open>A stand-in for \<^verbatim>\<open>JSON.parse\<close> that rejects the empty text, as \<^verbatim>\<open>JSON.parse\<close> does, and
  returns any other text as it is.\<close>

definition parse_nonempty :: "string \<Rightarrow> error + string" where
  "parse_nonempty text = (if text = [] then Inl (SyntaxError ''Unexpected end of JSON input'') else Inr text)"

text \<open>An injector whose constructions all succeed, the \<open>k\<close>-th giving the instance \<open>k\<close>, and
  whose methods return their first argument.\<close>

definition scenario_collaborators :: "(string, string, nat) collaborators" where
  "scenario_collaborators =
     \<lparr>fileService_repositoryPath = ''/repository'',
      env_WEB3_TIMEOUT = Some ''0'',
      Injector_createAsync = (\<lambda>k opts. Inr k),
      Injector_inject = (\<lambda>inst injectorInput. Inr injectorInput),
      Injector_verifyCreate2 = (\<lambda>inst contract deployerAddress salt constructorArgs create2Address. Inr contract),
      Injector_recompile = (\<lambda>inst contract. Inr contract),
      Injector_getBytecode = (\<lambda>inst address chainId. Inr address)\<rparr>"

text \<open>The options that these collaborators make the service hand to \<^verbatim>\<open>Injector.createAsync\<close>.\<close>

definition scenario_options :: injector_options where
  "scenario_options = \<lparr>repositoryPath = ''/repository'', web3timeout = None\<rparr>"

text \<open>An output whose contract has no metadata and whose only diagnostic is a warning, and
  one whose metadata is two spaces and which has no diagnostics at all.\<close>

definition no_metadata_output :: compiler_output where
  "no_metadata_output =
     \<lparr>contracts = Some [(''A.sol'', [(''Foo'', \<lparr>metadata = None\<rparr>)])],
      errors = Some [\<lparr>severity = ''warning'', formattedMessage = ''unused variable''\<rparr>]\<rparr>"

definition blank_metadata_output :: compiler_output where
  "blank_metadata_output =
     \<lparr>contracts = Some [(''A.sol'', [(''Foo'', \<lparr>metadata = Some ''  ''\<rparr>)])],
      errors = None\<rparr>"

text \<open>An output whose metadata string has white space at both ends, and one whose only file
  path is the empty string.\<close>

definition padded_contracts :: contracts_map where
  \<open>padded_contracts = [(''A.sol'', [(''Foo'', \<lparr>metadata = Some '' {"version":1}\<newline>''\<rparr>)])]\<close>

definition padded_output :: compiler_output where
  "padded_output = \<lparr>contracts = Some padded_contracts, errors = Some []\<rparr>"

definition empty_path_contracts :: contracts_map where
  "empty_path_contracts = [('''', [(''Foo'', \<lparr>metadata = Some ''[1]''\<rparr>)])]"

definition empty_path_output :: compiler_output where
  "empty_path_output = \<lparr>contracts = Some empty_path_contracts, errors = Some []\<rparr>"

subsection \<open>Notions the properties are stated with\<close>

text \<open>The file paths whose contract set contains the contract name, in the order of the
  mapping.\<close>

definition files_containing :: "contracts_map \<Rightarrow> string \<Rightarrow> string list" where
  "files_containing cs contractName =
     map fst (filter (\<lambda>(path, contractsList). contractName \<in> set (map fst contractsList)) cs)"

text \<open>
  Every one of the calls \<open>cs\<close> has made a construction of its own, the \<open>i\<close>-th call the
  construction number \<open>n + i\<close> of the service, and is suspended waiting for it or has
  settled with its result.
\<close>

definition own_construction ::
  "('v, 'r, 'e) collaborators \<Rightarrow> nat \<Rightarrow> 'v call list \<Rightarrow> ('v, 'r, 'e) task list \<Rightarrow> bool" where
  "own_construction X n cs ts \<longleftrightarrow>
     list_all2
       (\<lambda>(k, c) t.
          t = Awaiting (Injector_createAsync X k (createAsync_options X)) c \<or>
          t = settled_with X (Injector_createAsync X k (createAsync_options X)) c)
       (enumerate n cs) ts"

section \<open>Properties of getMetadataFromJsonInput\<close>

subsection \<open>Auxiliary facts\<close>

lemma findContractPath_none:
  "files_containing cs n = [] \<Longrightarrow>
   findContractPathFromContractName on_undefined (Some cs) n = Inr None"
  by (induction cs) (auto simp: files_containing_def split: if_splits)

lemma findContractPath_first:
  "files_containing cs n = p # ps \<Longrightarrow>
   findContractPathFromContractName on_undefined (Some cs) n = Inr (Some p)"
proof (induction cs)
  case Nil
  then show ?case by (simp add: files_containing_def)
next
  case (Cons a cs)
  obtain q cl where a: "a = (q, cl)" by (cases a)
  show ?case
  proof (cases "n \<in> set (map fst cl)")
    case True
    with Cons.prems a show ?thesis by (simp add: files_containing_def)
  next
    case False
    with Cons.prems a have "files_containing cs n = p # ps"
      by (simp add: files_containing_def)
    with Cons.IH False a show ?thesis by simp
  qed
qed

lemma trim_whitespace_only:
  assumes "\<forall>c\<in>set s. is_whitespace c"
  shows "trim s = []"
proof -
  from assms have *: "dropWhile is_whitespace s = []"
    by (induction s) auto
  show ?thesis unfolding trim_def trimStart_def * by simp
qed

text \<open>The three ways through the method once the compiler has returned: the helper throws,
  it gives no path (or the empty one), it gives a path.\<close>

lemma getMetadata_helper_throws:
  assumes "useCompiler v j = Inr out" and "findPath (contracts out) n = Inl e"
  shows "getMetadataFromJsonInput useCompiler findPath JSON_parse v n j = (Inl e, [])"
  using assms by (simp add: getMetadataFromJsonInput_def)

lemma getMetadata_no_path:
  assumes "useCompiler v j = Inr out"
    and "findPath (contracts out) n = Inr None \<or> findPath (contracts out) n = Inr (Some [])"
  shows "getMetadataFromJsonInput useCompiler findPath JSON_parse v n j =
     (Inl (Error (''Contract '' @ n @ '' not found in compiler output'')), [])"
  using assms by (auto simp add: getMetadataFromJsonInput_def)

lemma getMetadata_found:
  assumes "useCompiler v j = Inr out" and "findPath (contracts out) n = Inr (Some p)" and "p \<noteq> []"
  shows "getMetadataFromJsonInput useCompiler findPath JSON_parse v n j =
     (case truthy_metadata out p n of
        Some md \<Rightarrow> (JSON_parse (trim md), [])
      | None \<Rightarrow>
          (case errors out of
             None \<Rightarrow> (Inl (TypeError reading_filter_of_undefined), [])
           | Some es \<Rightarrow>
               (Inl (Error (''Compiler error:\<newline> '' @ errorMessages_of es)),
                [Log_error ''[VERIFY-WITH-JSON]'' p n v (errorMessages_of es)])))"
  using assms by (simp add: getMetadataFromJsonInput_def split: option.splits)

lemma scenario_no_Bar: "files_containing scenario_contracts ''Bar'' = []"
  by (simp add: scenario_contracts_def files_containing_def)

subsection \<open>The contract is in no file\<close>

text \<open>
  C2 says that, when no file path's contract set contains the contract name, the method fails
  with an error whose text is the newline-joined \<^verbatim>\<open>formattedMessage\<close>s of the diagnostics of
  severity \<^verbatim>\<open>error\<close>. It does not: in the scenario of the specification (one file
  \<^verbatim>\<open>A.sol\<close> with the contract \<^verbatim>\<open>Foo\<close>, one error diagnostic \<^verbatim>\<open>syntax error\<close>) and the name
  \<^verbatim>\<open>Bar\<close>, line 60 throws \<^verbatim>\<open>Contract Bar not found in compiler output\<close>, the diagnostics are
  not read and nothing is logged.
\<close>

theorem missing_contract_message_is_not_the_diagnostics:
  "files_containing scenario_contracts ''Bar'' = [] \<and>
   getMetadataFromJsonInput (\<lambda>v j. Inr scenario_output) (findContractPathFromContractName (Inr None))
       parse_nonempty ''0.8.17'' ''Bar'' ()
     = (Inl (Error ''Contract Bar not found in compiler output''), []) \<and>
   errorMessages_of (the (errors scenario_output)) = ''syntax error'' \<and>
   message (Error ''Contract Bar not found in compiler output'') \<noteq> ''syntax error''"
proof -
  have "findContractPathFromContractName (Inr None) (Some scenario_contracts) ''Bar'' = Inr None"
    by (simp add: findContractPath_none scenario_no_Bar)
  then have "getMetadataFromJsonInput (\<lambda>v j. Inr scenario_output)
       (findContractPathFromContractName (Inr None)) parse_nonempty ''0.8.17'' ''Bar'' ()
     = (Inl (Error ''Contract Bar not found in compiler output''), [])"
    by (simp add: getMetadataFromJsonInput_def scenario_output_def)
  moreover have "errorMessages_of (the (errors scenario_output)) = ''syntax error''"
    by (simp add: scenario_output_def errorMessages_of_def)
  ultimately show ?thesis
    by (simp add: scenario_no_Bar)
qed

text \<open>
  C2, amended. Let the compiler return an output with a contracts mapping. When no file
  path's contract set contains the contract name, the method throws the \<^verbatim>\<open>Error\<close> with the
  message \<^verbatim>\<open>Contract <contractName> not found in compiler output\<close> and logs nothing. The
  newline-joined \<^verbatim>\<open>formattedMessage\<close>s of the diagnostics of severity \<^verbatim>\<open>error\<close> are the text,
  after \<^verbatim>\<open>Compiler error:\n \<close>, of the \<^verbatim>\<open>Error\<close> thrown (and logged) in the other failing case:
  some file path, not the empty string, contains the name, and under the first such path
  there is no non-empty metadata string for it.
\<close>

theorem missing_contract_fails_with_not_found:
  assumes "useCompiler compilerVersion compilerJson = Inr output"
    and "contracts output = Some cs"
  shows "(files_containing cs contractName = [] \<longrightarrow>
            getMetadataFromJsonInput useCompiler (findContractPathFromContractName on_undefined)
                JSON_parse compilerVersion contractName compilerJson =
              (Inl (Error (''Contract '' @ contractName @ '' not found in compiler output'')), [])) \<and>
         (files_containing cs contractName = contractPath # others \<and> contractPath \<noteq> [] \<and>
          truthy_metadata output contractPath contractName = None \<and> errors output = Some es \<longrightarrow>
            getMetadataFromJsonInput useCompiler (findContractPathFromContractName on_undefined)
                JSON_parse compilerVersion contractName compilerJson =
              (Inl (Error (''Compiler error:\<newline> '' @ errorMessages_of es)),
               [Log_error ''[VERIFY-WITH-JSON]'' contractPath contractName compilerVersion
                  (errorMessages_of es)]))"
proof (intro conjI impI)
  assume "files_containing cs contractName = []"
  with assms show "getMetadataFromJsonInput useCompiler (findContractPathFromContractName on_undefined)
                JSON_parse compilerVersion contractName compilerJson =
              (Inl (Error (''Contract '' @ contractName @ '' not found in compiler output'')), [])"
    by (simp add: getMetadata_no_path findContractPath_none)
next
  assume a: "files_containing cs contractName = contractPath # others \<and> contractPath \<noteq> [] \<and>
          truthy_metadata output contractPath contractName = None \<and> errors output = Some es"
  with assms(2) have "findContractPathFromContractName on_undefined (contracts output) contractName =
          Inr (Some contractPath)"
    by (simp add: findContractPath_first)
  with assms(1) a show "getMetadataFromJsonInput useCompiler (findContractPathFromContractName on_undefined)
                JSON_parse compilerVersion contractName compilerJson =
              (Inl (Error (''Compiler error:\<newline> '' @ errorMessages_of es)),
               [Log_error ''[VERIFY-WITH-JSON]'' contractPath contractName compilerVersion
                  (errorMessages_of es)])"
    by (simp add: getMetadata_found)
qed

text \<open>Both cases happen: the name \<^verbatim>\<open>Bar\<close> in the scenario, and the name \<^verbatim>\<open>Foo\<close> in the
  scenario with the metadata of \<^verbatim>\<open>Foo\<close> removed.\<close>

theorem missing_contract_fails_with_not_found_witness:
  "contracts scenario_output = Some scenario_contracts \<and>
   files_containing scenario_contracts ''Bar'' = [] \<and>
   getMetadataFromJsonInput (\<lambda>v j. Inr scenario_output) (findContractPathFromContractName (Inr None))
       parse_nonempty ''0.8.17'' ''Bar'' ()
     = (Inl (Error ''Contract Bar not found in compiler output''), []) \<and>
   files_containing [(''A.sol'', [(''Foo'', \<lparr>metadata = None\<rparr>)])] ''Foo'' = [''A.sol''] \<and>
   truthy_metadata (scenario_output\<lparr>contracts := Some [(''A.sol'', [(''Foo'', \<lparr>metadata = None\<rparr>)])]\<rparr>)
       ''A.sol'' ''Foo'' = None \<and>
   getMetadataFromJsonInput
       (\<lambda>v j. Inr (scenario_output\<lparr>contracts := Some [(''A.sol'', [(''Foo'', \<lparr>metadata = None\<rparr>)])]\<rparr>))
       (findContractPathFromContractName (Inr None)) parse_nonempty ''0.8.17'' ''Foo'' ()
     = (Inl (Error ''Compiler error:\<newline> syntax error''),
        [Log_error ''[VERIFY-WITH-JSON]'' ''A.sol'' ''Foo'' ''0.8.17'' ''syntax error''])"
proof -
  let ?out = "scenario_output\<lparr>contracts := Some [(''A.sol'', [(''Foo'', \<lparr>metadata = None\<rparr>)])]\<rparr>"
  have 1: "contracts scenario_output = Some scenario_contracts"
    by (simp add: scenario_output_def)
  have 2: "contracts ?out = Some [(''A.sol'', [(''Foo'', \<lparr>metadata = None\<rparr>)])]"
    by simp
  have 3: "files_containing [(''A.sol'', [(''Foo'', \<lparr>metadata = None\<rparr>)])] ''Foo'' = [''A.sol'']"
    by (simp add: files_containing_def)
  have 4: "truthy_metadata ?out ''A.sol'' ''Foo'' = None"
    by (simp add: truthy_metadata_def)
  have 5: "errors ?out = Some [\<lparr>severity = ''error'', formattedMessage = ''syntax error''\<rparr>]"
    by (simp add: scenario_output_def)
  have 6: "errorMessages_of [\<lparr>severity = ''error'', formattedMessage = ''syntax error''\<rparr>]
             = ''syntax error''"
    by (simp add: errorMessages_of_def)
  from missing_contract_fails_with_not_found [of "\<lambda>v j. Inr scenario_output" "''0.8.17''" "()"
      scenario_output scenario_contracts "''Bar''" "Inr None" parse_nonempty, OF refl 1]
    missing_contract_fails_with_not_found [of "\<lambda>v j. Inr ?out" "''0.8.17''" "()"
      ?out "[(''A.sol'', [(''Foo'', \<lparr>metadata = None\<rparr>)])]" "''Foo''" "Inr None" parse_nonempty
      "''A.sol''" "[]" "[\<lparr>severity = ''error'', formattedMessage = ''syntax error''\<rparr>]", OF refl 2]
    1 3 4 5 6 scenario_no_Bar
  show ?thesis by simp
qed

subsection \<open>The contract is in one file\<close>

text \<open>
  C3 says that, when exactly one file path's contract set contains the contract name, with a
  non-empty metadata string, the method returns that string parsed. It does not when that
  file path is the empty string: with the contracts \<^verbatim>\<open>{"": {"Foo": {"metadata": "[1]"}}}\<close> and
  the name \<^verbatim>\<open>Foo\<close>, the helper gives the path \<^verbatim>\<open>""\<close>, which is falsy, and line 59 throws
  \<^verbatim>\<open>Contract Foo not found in compiler output\<close>, although \<^verbatim>\<open>JSON.parse\<close> accepts the metadata.
\<close>

theorem empty_file_path_is_not_found:
  "files_containing empty_path_contracts ''Foo'' = [''''] \<and>
   map_of empty_path_contracts '''' = Some [(''Foo'', \<lparr>metadata = Some ''[1]''\<rparr>)] \<and>
   map_of [(''Foo'', \<lparr>metadata = Some ''[1]''\<rparr>)] ''Foo'' = Some \<lparr>metadata = Some ''[1]''\<rparr> \<and>
   parse_nonempty (trim ''[1]'') = Inr ''[1]'' \<and>
   getMetadataFromJsonInput (\<lambda>v j. Inr empty_path_output)
       (findContractPathFromContractName (Inr None)) parse_nonempty ''0.8.17'' ''Foo'' ()
     = (Inl (Error ''Contract Foo not found in compiler output''), [])"
  by (simp add: files_containing_def empty_path_contracts_def empty_path_output_def
      getMetadataFromJsonInput_def parse_nonempty_def trim_def trimStart_def is_whitespace_def)

text \<open>
  C3, amended. Let the compiler return an output with a contracts mapping in which exactly
  one file path's contract set contains the contract name, with a non-empty metadata string,
  and let that file path not be the empty string. Then the method returns what \<^verbatim>\<open>JSON.parse\<close>
  returns for the metadata string with the white space at its ends removed (and throws what
  \<^verbatim>\<open>JSON.parse\<close> throws for it), and logs nothing.
\<close>

theorem single_file_metadata_is_parsed:
  assumes "useCompiler compilerVersion compilerJson = Inr output"
    and "contracts output = Some cs"
    and "files_containing cs contractName = [contractPath]"
    and "contractPath \<noteq> []"
    and "map_of cs contractPath = Some contractsList"
    and "map_of contractsList contractName = Some a"
    and "metadata a = Some md"
    and "md \<noteq> []"
  shows "getMetadataFromJsonInput useCompiler (findContractPathFromContractName on_undefined)
           JSON_parse compilerVersion contractName compilerJson =
         (JSON_parse (trim md), [])"
proof -
  have "findContractPathFromContractName on_undefined (contracts output) contractName =
          Inr (Some contractPath)"
    using assms(2,3) by (simp add: findContractPath_first)
  moreover have "truthy_metadata output contractPath contractName = Some md"
    using assms(2,5-8) by (simp add: truthy_metadata_def)
  ultimately show ?thesis
    using assms(1,4) by (simp add: getMetadata_found)
qed

text \<open>The metadata of the specification's scenario with a space before it and a line feed
  after it, which are removed before it is parsed; \<^verbatim>\<open>JSON.parse\<close> is one that returns its
  text.\<close>

theorem single_file_metadata_is_parsed_witness:
  \<open>contracts padded_output = Some padded_contracts \<and>
   files_containing padded_contracts ''Foo'' = [''A.sol''] \<and>
   ''A.sol'' \<noteq> [] \<and>
   map_of padded_contracts ''A.sol''
     = Some [(''Foo'', \<lparr>metadata = Some '' {"version":1}\<newline>''\<rparr>)] \<and>
   map_of [(''Foo'', \<lparr>metadata = Some '' {"version":1}\<newline>''\<rparr>)] ''Foo''
     = Some \<lparr>metadata = Some '' {"version":1}\<newline>''\<rparr> \<and>
   trim '' {"version":1}\<newline>'' = ''{"version":1}'' \<and>
   getMetadataFromJsonInput (\<lambda>v j. Inr padded_output) (findContractPathFromContractName (Inr None))
       parse_nonempty ''0.8.17'' ''Foo'' ()
     = (Inr ''{"version":1}'', [])\<close>
proof -
  have 1: "contracts padded_output = Some padded_contracts"
    by (simp add: padded_output_def)
  have 2: "files_containing padded_contracts ''Foo'' = [''A.sol'']"
    by (simp add: padded_contracts_def files_containing_def)
  have 3: \<open>map_of padded_contracts ''A.sol''
             = Some [(''Foo'', \<lparr>metadata = Some '' {"version":1}\<newline>''\<rparr>)]\<close>
    by (simp add: padded_contracts_def)
  have 4: \<open>trim '' {"version":1}\<newline>'' = ''{"version":1}''\<close>
    by (simp add: trim_def trimStart_def is_whitespace_def)
  from single_file_metadata_is_parsed [of "\<lambda>v j. Inr padded_output" "''0.8.17''" "()"
      padded_output padded_contracts "''Foo''" "''A.sol''"
      \<open>[(''Foo'', \<lparr>metadata = Some '' {"version":1}\<newline>''\<rparr>)]\<close>
      \<open>\<lparr>metadata = Some '' {"version":1}\<newline>''\<rparr>\<close> \<open>'' {"version":1}\<newline>''\<close>
      "Inr None" parse_nonempty, OF refl 1 2 _ 3]
  have \<open>getMetadataFromJsonInput (\<lambda>v j. Inr padded_output)
           (findContractPathFromContractName (Inr None)) parse_nonempty ''0.8.17'' ''Foo'' ()
         = (parse_nonempty (trim '' {"version":1}\<newline>''), [])\<close>
    by simp
  with 1 2 3 4 show ?thesis
    by (simp add: parse_nonempty_def)
qed

subsection \<open>The compiler fails\<close>

text \<open>
  C5. When \<^verbatim>\<open>useCompiler\<close> throws, the method throws the same value: nothing is caught,
  wrapped or logged, whatever the helper and \<^verbatim>\<open>JSON.parse\<close> are.
\<close>

theorem useCompiler_failure_propagates:
  assumes "useCompiler compilerVersion compilerJson = Inl e"
  shows "getMetadataFromJsonInput useCompiler findPath JSON_parse compilerVersion contractName
           compilerJson = (Inl e, [])"
  using assms by (simp add: getMetadataFromJsonInput_def)

theorem useCompiler_failure_propagates_witness:
  "getMetadataFromJsonInput (\<lambda>v j. Inl (Error ''Unknown compiler version''))
       (findContractPathFromContractName (Inr None)) parse_nonempty ''0.0.0'' ''Foo'' ()
     = (Inl (Error ''Unknown compiler version''), [])"
  using useCompiler_failure_propagates [of "\<lambda>v j. Inl (Error ''Unknown compiler version'')"
      "''0.0.0''" "()" "Error ''Unknown compiler version''"
      "findContractPathFromContractName (Inr None)" parse_nonempty "''Foo''"]
  by simp

subsection \<open>No metadata and no error diagnostic\<close>

text \<open>
  C8. Let the compiler return an output that has, under no file path, a non-empty metadata
  string for the contract, and whose diagnostics contain none of severity \<^verbatim>\<open>error\<close>. Then
  the method throws and returns nothing, whatever the helper does; and when the helper gives
  a path (not the empty string), what is thrown is the \<^verbatim>\<open>Error\<close> of line 79 with an empty
  text after \<^verbatim>\<open>Compiler error:\n \<close>, logged with an empty \<^verbatim>\<open>errorMessages\<close>.
\<close>

theorem missing_metadata_without_error_diagnostics_fails:
  assumes "useCompiler compilerVersion compilerJson = Inr output"
    and "\<forall>path. truthy_metadata output path contractName = None"
    and "errors output = Some es"
    and "filter (\<lambda>e. severity e = ''error'') es = []"
  shows "(\<exists>e. fst (getMetadataFromJsonInput useCompiler findPath JSON_parse
                    compilerVersion contractName compilerJson) = Inl e) \<and>
         (\<forall>contractPath. findPath (contracts output) contractName = Inr (Some contractPath) \<and>
             contractPath \<noteq> [] \<longrightarrow>
             getMetadataFromJsonInput useCompiler findPath JSON_parse
                 compilerVersion contractName compilerJson =
               (Inl (Error ''Compiler error:\<newline> ''),
                [Log_error ''[VERIFY-WITH-JSON]'' contractPath contractName compilerVersion []]))"
proof -
  have msgs: "errorMessages_of es = []"
    using assms(4) by (simp add: errorMessages_of_def)
  have found: "getMetadataFromJsonInput useCompiler findPath JSON_parse
                 compilerVersion contractName compilerJson =
               (Inl (Error ''Compiler error:\<newline> ''),
                [Log_error ''[VERIFY-WITH-JSON]'' p contractName compilerVersion []])"
    if "findPath (contracts output) contractName = Inr (Some p)" and "p \<noteq> []" for p
    using that assms(1,2,3) msgs by (simp add: getMetadata_found)
  have "\<exists>e. fst (getMetadataFromJsonInput useCompiler findPath JSON_parse
                    compilerVersion contractName compilerJson) = Inl e"
  proof (cases "findPath (contracts output) contractName")
    case (Inl e)
    with assms(1) show ?thesis by (simp add: getMetadata_helper_throws)
  next
    case (Inr r)
    show ?thesis
    proof (cases "r = None \<or> r = Some []")
      case True
      with Inr assms(1) show ?thesis by (auto simp add: getMetadata_no_path)
    next
      case False
      then obtain p where "r = Some p" and "p \<noteq> []" by (cases r) auto
      with Inr found show ?thesis by simp
    qed
  qed
  with found show ?thesis by blast
qed

theorem missing_metadata_without_error_diagnostics_fails_witness:
  "errors no_metadata_output = Some [\<lparr>severity = ''warning'', formattedMessage = ''unused variable''\<rparr>] \<and>
   filter (\<lambda>e. severity e = ''error'')
     [\<lparr>severity = ''warning'', formattedMessage = ''unused variable''\<rparr>] = [] \<and>
   findContractPathFromContractName (Inr None) (contracts no_metadata_output) ''Foo''
     = Inr (Some ''A.sol'') \<and>
   getMetadataFromJsonInput (\<lambda>v j. Inr no_metadata_output) (findContractPathFromContractName (Inr None))
       parse_nonempty ''0.8.17'' ''Foo'' ()
     = (Inl (Error ''Compiler error:\<newline> ''),
        [Log_error ''[VERIFY-WITH-JSON]'' ''A.sol'' ''Foo'' ''0.8.17'' []])"
proof -
  have 1: "errors no_metadata_output =
             Some [\<lparr>severity = ''warning'', formattedMessage = ''unused variable''\<rparr>]"
    by (simp add: no_metadata_output_def)
  have 2: "filter (\<lambda>e. severity e = ''error'')
             [\<lparr>severity = ''warning'', formattedMessage = ''unused variable''\<rparr>] = []"
    by simp
  have 3: "findContractPathFromContractName (Inr None) (contracts no_metadata_output) ''Foo''
             = Inr (Some ''A.sol'')"
    by (simp add: no_metadata_output_def)
  have 4: "\<forall>path. truthy_metadata no_metadata_output path ''Foo'' = None"
    by (simp add: truthy_metadata_def no_metadata_output_def)
  from missing_metadata_without_error_diagnostics_fails [of "\<lambda>v j. Inr no_metadata_output"
      "''0.8.17''" "()" no_metadata_output "''Foo''"
      "[\<lparr>severity = ''warning'', formattedMessage = ''unused variable''\<rparr>]"
      "findContractPathFromContractName (Inr None)" parse_nonempty, OF refl 4 1 2] 1 2 3
  show ?thesis by simp
qed

subsection \<open>No metadata, no value\<close>

text \<open>
  C10. Let the compiler return an output in which every metadata string for the contract,
  under whatever file path, is absent, empty or white space only; its diagnostics may be
  absent. Then the method throws and returns nothing, whatever the helper does. Used of
  \<^verbatim>\<open>JSON.parse\<close> is only that it throws on the empty text, which is what is left of a string
  of white space once trimmed.
\<close>

theorem no_metadata_never_returns:
  assumes "JSON_parse [] = Inl syntax_error"
    and "useCompiler compilerVersion compilerJson = Inr output"
    and "\<forall>path md. truthy_metadata output path contractName = Some md \<longrightarrow>
           (\<forall>c\<in>set md. is_whitespace c)"
  shows "\<exists>e. fst (getMetadataFromJsonInput useCompiler findPath JSON_parse
                   compilerVersion contractName compilerJson) = Inl e"
proof (cases "findPath (contracts output) contractName")
  case (Inl e)
  with assms(2) show ?thesis by (simp add: getMetadata_helper_throws)
next
  case (Inr r)
  show ?thesis
  proof (cases "r = None \<or> r = Some []")
    case True
    with Inr assms(2) show ?thesis by (auto simp add: getMetadata_no_path)
  next
    case False
    then obtain p where p: "r = Some p" "p \<noteq> []" by (cases r) auto
    show ?thesis
    proof (cases "truthy_metadata output p contractName")
      case None
      with Inr p assms(2) show ?thesis
        by (simp add: getMetadata_found split: option.splits)
    next
      case (Some md)
      with assms(3) have "trim md = []" by (simp add: trim_whitespace_only)
      with Some Inr p assms(1,2) show ?thesis
        by (simp add: getMetadata_found)
    qed
  qed
qed

text \<open>Metadata of two spaces, and no diagnostics: the two spaces are trimmed away and
  \<^verbatim>\<open>JSON.parse\<close> throws.\<close>

theorem no_metadata_never_returns_witness:
  "parse_nonempty [] = Inl (SyntaxError ''Unexpected end of JSON input'') \<and>
   truthy_metadata blank_metadata_output ''A.sol'' ''Foo'' = Some ''  '' \<and>
   getMetadataFromJsonInput (\<lambda>v j. Inr blank_metadata_output)
       (findContractPathFromContractName (Inr None)) parse_nonempty ''0.8.17'' ''Foo'' ()
     = (Inl (SyntaxError ''Unexpected end of JSON input''), [])"
proof -
  have 1: "parse_nonempty [] = Inl (SyntaxError ''Unexpected end of JSON input'')"
    by (simp add: parse_nonempty_def)
  have 2: "\<forall>path md. truthy_metadata blank_metadata_output path ''Foo'' = Some md \<longrightarrow>
           (\<forall>c\<in>set md. is_whitespace c)"
    by (auto simp add: truthy_metadata_def blank_metadata_output_def is_whitespace_def
        split: option.splits if_splits)
  have 3: "truthy_metadata blank_metadata_output ''A.sol'' ''Foo'' = Some ''  ''"
    by (simp add: truthy_metadata_def blank_metadata_output_def)
  have 4: "getMetadataFromJsonInput (\<lambda>v j. Inr blank_metadata_output)
       (findContractPathFromContractName (Inr None)) parse_nonempty ''0.8.17'' ''Foo'' ()
     = (parse_nonempty (trim ''  ''), [])"
    by (simp add: getMetadataFromJsonInput_def truthy_metadata_def blank_metadata_output_def)
  from no_metadata_never_returns [of parse_nonempty "SyntaxError ''Unexpected end of JSON input''"
      "\<lambda>v j. Inr blank_metadata_output" "''0.8.17''" "()" blank_metadata_output "''Foo''"
      "findContractPathFromContractName (Inr None)", OF 1 refl 2]
  obtain e where "fst (getMetadataFromJsonInput (\<lambda>v j. Inr blank_metadata_output)
      (findContractPathFromContractName (Inr None)) parse_nonempty ''0.8.17'' ''Foo'' ()) = Inl e"
    by blast
  with 4 have 5: "parse_nonempty (trim ''  '') = Inl e" by simp
  then have "e = SyntaxError ''Unexpected end of JSON input''"
    by (auto simp add: parse_nonempty_def split: if_splits)
  with 5 1 3 4 show ?thesis by simp
qed

section \<open>Properties of findByAddress and findAllByAddress\<close>

text \<open>
  C4. When the file service's lookup throws, whatever it throws, \<^verbatim>\<open>findByAddress\<close> and
  \<^verbatim>\<open>findAllByAddress\<close> return the empty array and write one \<^verbatim>\<open>info\<close> entry that carries the
  address; and neither method ever throws.
\<close>

theorem lookup_failure_gives_no_matches:
  "(fileService_findByAddress address chain = Inl err \<longrightarrow>
      findByAddress fileService_findByAddress address chain =
        (Inr [], [Log_info ''[POST:VERIFICATION_BY_ADDRESS_FAILED]'' address
                    ''Could not find file in repository''])) \<and>
   (fileService_findAllByAddress address chain = Inl err' \<longrightarrow>
      findAllByAddress fileService_findAllByAddress address chain =
        (Inr [], [Log_info ''[POST:VERIFICATION_BY_ADDRESS_FAILED]'' address
                    ''Could not find file in repository''])) \<and>
   (\<exists>matches. fst (findByAddress fileService_findByAddress address chain) = Inr matches) \<and>
   (\<exists>matches. fst (findAllByAddress fileService_findAllByAddress address chain) = Inr matches)"
  by (auto simp: findByAddress_def findAllByAddress_def split: sum.splits)

text \<open>The scenario of the specification: the store throws for the address \<^verbatim>\<open>0xabc\<close>.\<close>

theorem lookup_failure_gives_no_matches_witness:
  "(\<lambda>address chain. Inl (Error ''not found'') :: error + string list) ''0xabc'' ''1''
     = Inl (Error ''not found'') \<and>
   findByAddress (\<lambda>address chain. Inl (Error ''not found'') :: error + string list) ''0xabc'' ''1'' =
     (Inr [], [Log_info ''[POST:VERIFICATION_BY_ADDRESS_FAILED]'' ''0xabc''
                 ''Could not find file in repository'']) \<and>
   findAllByAddress (\<lambda>address chain. Inl (Error ''not found'') :: error + string list) ''0xabc'' ''1'' =
     (Inr [], [Log_info ''[POST:VERIFICATION_BY_ADDRESS_FAILED]'' ''0xabc''
                 ''Could not find file in repository''])"
  using lookup_failure_gives_no_matches [of
      "\<lambda>address chain. Inl (Error ''not found'') :: error + string list" "''0xabc''" "''1''"
      "Error ''not found''" "\<lambda>address chain. Inl (Error ''not found'') :: error + string list"
      "Error ''not found''"]
  by simp

section \<open>Properties of the forwarding methods\<close>

subsection \<open>Auxiliary facts\<close>

lemma parseInt_15x: "parseInt ''15x'' = Number 15"
  by (simp add: parseInt_def trimStart_def is_whitespace_def digit_value_def nearest_double_def)

lemma parseInt_0: "parseInt ''0'' = Number 0"
  by (simp add: parseInt_def trimStart_def is_whitespace_def digit_value_def nearest_double_def)

text \<open>The number of bits of a positive number, and an integer beyond \<open>2^53\<close>: it is rounded as
  JavaScript rounds it.\<close>

lemma bit_length_bounds:
  "0 < k \<Longrightarrow> 2 ^ (k - 1) \<le> n \<Longrightarrow> n < 2 ^ k \<Longrightarrow> bit_length n = k"
proof (induction k arbitrary: n)
  case 0
  then show ?case by simp
next
  case (Suc k)
  from Suc.prems have n: "n \<noteq> 0" by auto
  show ?case
  proof (cases "k = 0")
    case True
    with Suc.prems have "n = 1" by simp
    then show ?thesis using True by (simp add: bit_length.simps)
  next
    case False
    then obtain j where j: "k = Suc j" by (cases k) auto
    from Suc.prems j have "2 ^ (k - 1) \<le> n div 2" and "n div 2 < 2 ^ k"
      by simp_all
    with Suc.IH False have "bit_length (n div 2) = k" by simp
    with n show ?thesis by (subst bit_length.simps) simp
  qed
qed

lemma bit_length_example: "bit_length 9007199254740993 = 54"
  by (rule bit_length_bounds) simp_all

lemma nearest_double_example: "nearest_double 9007199254740993 = Some 9007199254740992"
  by (simp add: nearest_double_def bit_length_example)

lemma parseInt_rounds: "parseInt ''9007199254740993'' = Number 9007199254740992"
  by (simp add: parseInt_def trimStart_def is_whitespace_def digit_value_def nearest_double_example)

lemma scenario_createAsync_options: "createAsync_options scenario_collaborators = scenario_options"
  by (simp add: createAsync_options_def scenario_collaborators_def scenario_options_def
      web3timeout_of_def parseInt_0)

lemma ensure_injector_set:
  "injector s = Some inst \<Longrightarrow> ensure_injector X s = (Inr inst, s)"
  by (simp add: ensure_injector_def)

lemma ensure_injector_unset:
  assumes "injector s = None"
  shows "ensure_injector X s =
     (case Injector_createAsync X (length (createAsync_calls s)) (createAsync_options X) of
        Inl e \<Rightarrow> (Inl e, s\<lparr>createAsync_calls := createAsync_calls s @ [createAsync_options X]\<rparr>)
      | Inr inst \<Rightarrow> (Inr inst, s\<lparr>createAsync_calls := createAsync_calls s @ [createAsync_options X],
                                 injector := Some inst\<rparr>))"
  using assms by (simp add: ensure_injector_def Let_def split: sum.splits)

lemma perform_ensure:
  "perform X s c =
     (case ensure_injector X s of
        (Inl e, s') \<Rightarrow> (Inl e, s')
      | (Inr inst, s') \<Rightarrow> (forwarded X inst c, s'))"
  by (cases c)
     (auto simp add: inject_def verifyCreate2_def recompile_def getBytecode_def
        split: prod.splits sum.splits)

lemma perform_set:
  "injector s = Some inst \<Longrightarrow> perform X s c = (forwarded X inst c, s)"
  by (simp add: perform_ensure ensure_injector_set)

lemma perform_all_set:
  "injector s = Some inst \<Longrightarrow> perform_all X s cs = (map (forwarded X inst) cs, s)"
  by (induction cs) (simp_all add: perform_set)

text \<open>A call that runs alone, from its beginning through its \<^verbatim>\<open>await\<close> to its end, is the
  method of the section before: the two descriptions of the four methods agree.\<close>

lemma perform_as_begin_resume:
  "(case begin_call X s c of
      (Awaiting r c', s') \<Rightarrow> resume_call X s' r c'
    | (t, s') \<Rightarrow> (t, s')) =
   (Settled (case fst (ensure_injector X s) of Inl e \<Rightarrow> None | Inr inst \<Rightarrow> Some inst)
      (fst (perform X s c)),
    snd (perform X s c))"
proof (cases "injector s")
  case None
  then show ?thesis
    by (cases c; cases "Injector_createAsync X (length (createAsync_calls s)) (createAsync_options X)")
       (simp_all add: begin_call_def resume_call_def settled_with_def ensure_injector_def
          inject_def verifyCreate2_def recompile_def getBytecode_def)
next
  case (Some inst)
  then show ?thesis
    by (cases c)
       (simp_all add: begin_call_def ensure_injector_def
          inject_def verifyCreate2_def recompile_def getBytecode_def)
qed

subsection \<open>One call after the other\<close>

text \<open>
  C6. Once the field holds an injector, every call of the four methods made after the one
  before it has settled is forwarded to that injector and leaves the service as it is: the
  field keeps the same injector and \<^verbatim>\<open>Injector.createAsync\<close> is not called again. And the
  field holds the injector from the first call whose construction succeeds: a sequence of
  calls on a service with the field unset, whose first construction succeeds, makes that one
  construction and forwards every call to its result.
\<close>

theorem constructed_injector_is_reused:
  "(injector s = Some inst \<longrightarrow> perform_all X s cs = (map (forwarded X inst) cs, s)) \<and>
   (injector s = None \<and>
    Injector_createAsync X (length (createAsync_calls s)) (createAsync_options X) = Inr inst \<longrightarrow>
      perform_all X s (c # cs) =
        (map (forwarded X inst) (c # cs),
         s\<lparr>createAsync_calls := createAsync_calls s @ [createAsync_options X],
           injector := Some inst\<rparr>))"
proof (intro conjI impI)
  assume "injector s = Some inst"
  then show "perform_all X s cs = (map (forwarded X inst) cs, s)"
    by (rule perform_all_set)
next
  assume a: "injector s = None \<and>
    Injector_createAsync X (length (createAsync_calls s)) (createAsync_options X) = Inr inst"
  let ?s' = "s\<lparr>createAsync_calls := createAsync_calls s @ [createAsync_options X],
           injector := Some inst\<rparr>"
  from a have "perform X s c = (forwarded X inst c, ?s')"
    by (simp add: perform_ensure ensure_injector_unset)
  moreover have "perform_all X ?s' cs = (map (forwarded X inst) cs, ?s')"
    by (rule perform_all_set) simp
  ultimately show "perform_all X s (c # cs) = (map (forwarded X inst) (c # cs), ?s')"
    by simp
qed

text \<open>Three calls on a new service: one construction, of the injector \<open>0\<close>.\<close>

theorem constructed_injector_is_reused_witness:
  "injector (new_service :: nat service) = None \<and>
   Injector_createAsync scenario_collaborators (length (createAsync_calls (new_service :: nat service)))
     (createAsync_options scenario_collaborators) = Inr 0 \<and>
   perform_all scenario_collaborators new_service
       [Inject ''a'', GetBytecode ''0xabc'' ''1'', Recompile ''c'']
     = ([Inr ''a'', Inr ''0xabc'', Inr ''c''],
        \<lparr>injector = Some 0, createAsync_calls = [scenario_options]\<rparr>)"
proof -
  have 1: "injector (new_service :: nat service) = None"
    by (simp add: new_service_def)
  have 2: "Injector_createAsync scenario_collaborators
             (length (createAsync_calls (new_service :: nat service)))
             (createAsync_options scenario_collaborators) = Inr 0"
    by (simp add: new_service_def scenario_collaborators_def)
  from constructed_injector_is_reused [of new_service 0 scenario_collaborators
      "[GetBytecode ''0xabc'' ''1'', Recompile ''c'']" "Inject ''a''",
      THEN conjunct2, rule_format, OF conjI, OF 1 2]
  show ?thesis using 1 2
    by (simp add: new_service_def scenario_createAsync_options) (simp add: scenario_collaborators_def)
qed

subsection \<open>Forwarding\<close>

text \<open>
  C7. Each of \<^verbatim>\<open>inject\<close>, \<^verbatim>\<open>verifyCreate2\<close>, \<^verbatim>\<open>recompile\<close> and \<^verbatim>\<open>getBytecode\<close>, once lines
  124-131 have given it an injector (the one in the field, or a new one), returns or throws
  exactly what the injector's method of the same name returns or throws for the same
  arguments in the same order; when the construction throws, it throws the same value; and
  it changes nothing of the service but what lines 124-131 change.
\<close>

theorem delegated_calls_are_forwarded:
  "(fst (ensure_injector X s) = Inr inst \<longrightarrow>
      fst (inject X s injectorInput) = Injector_inject X inst injectorInput \<and>
      fst (verifyCreate2 X s contract deployerAddress salt constructorArgs create2Address) =
        Injector_verifyCreate2 X inst contract deployerAddress salt constructorArgs create2Address \<and>
      fst (recompile X s contract) = Injector_recompile X inst contract \<and>
      fst (getBytecode X s address chainId) = Injector_getBytecode X inst address chainId) \<and>
   (fst (ensure_injector X s) = Inl e \<longrightarrow>
      fst (inject X s injectorInput) = Inl e \<and>
      fst (verifyCreate2 X s contract deployerAddress salt constructorArgs create2Address) = Inl e \<and>
      fst (recompile X s contract) = Inl e \<and>
      fst (getBytecode X s address chainId) = Inl e) \<and>
   snd (inject X s injectorInput) = snd (ensure_injector X s) \<and>
   snd (verifyCreate2 X s contract deployerAddress salt constructorArgs create2Address) =
     snd (ensure_injector X s) \<and>
   snd (recompile X s contract) = snd (ensure_injector X s) \<and>
   snd (getBytecode X s address chainId) = snd (ensure_injector X s)"
  by (cases "ensure_injector X s"; cases "fst (ensure_injector X s)")
     (simp_all add: inject_def verifyCreate2_def recompile_def getBytecode_def)

text \<open>On a new service whose injector's methods return their first argument, and on one
  whose construction throws.\<close>

theorem delegated_calls_are_forwarded_witness:
  "fst (ensure_injector scenario_collaborators (new_service :: nat service)) = Inr 0 \<and>
   fst (inject scenario_collaborators new_service ''input'') = Inr ''input'' \<and>
   fst (verifyCreate2 scenario_collaborators new_service ''contract'' ''0xdep'' ''0x01'' ''args'' ''0xc2'')
     = Inr ''contract'' \<and>
   fst (recompile scenario_collaborators new_service ''contract'') = Inr ''contract'' \<and>
   fst (getBytecode scenario_collaborators new_service ''0xabc'' ''1'') = Inr ''0xabc'' \<and>
   fst (ensure_injector
          (scenario_collaborators\<lparr>Injector_createAsync := \<lambda>k opts. Inl (Error ''no chains'')\<rparr>)
          (new_service :: nat service)) = Inl (Error ''no chains'') \<and>
   fst (inject (scenario_collaborators\<lparr>Injector_createAsync := \<lambda>k opts. Inl (Error ''no chains'')\<rparr>)
          new_service ''input'') = Inl (Error ''no chains'')"
proof -
  let ?Y = "scenario_collaborators\<lparr>Injector_createAsync := \<lambda>k opts. Inl (Error ''no chains'')\<rparr>"
  have 1: "fst (ensure_injector scenario_collaborators (new_service :: nat service)) = Inr 0"
    by (simp add: ensure_injector_def new_service_def scenario_collaborators_def)
  have 2: "fst (ensure_injector ?Y (new_service :: nat service)) = Inl (Error ''no chains'')"
    by (simp add: ensure_injector_def new_service_def)
  from delegated_calls_are_forwarded [of scenario_collaborators new_service 0 "''input''"
      "''contract''" "''0xdep''" "''0x01''" "''args''" "''0xc2''" "''0xabc''" "''1''"]
    delegated_calls_are_forwarded [of ?Y new_service 0 "''input''"
      "''contract''" "''0xdep''" "''0x01''" "''args''" "''0xc2''" "''0xabc''" "''1''"
      "Error ''no chains''"] 1 2
  show ?thesis by (simp add: scenario_collaborators_def)
qed

subsection \<open>The timeout\<close>

text \<open>
  C9. When \<^verbatim>\<open>parseInt\<close> of the environment variable \<^verbatim>\<open>WEB3_TIMEOUT\<close> is zero, the options
  have no \<^verbatim>\<open>web3timeout\<close>; when the variable is \<^verbatim>\<open>15x\<close>, their \<^verbatim>\<open>web3timeout\<close> is 15. These
  are the options a construction is made with: a method that finds the field unset calls
  \<^verbatim>\<open>Injector.createAsync\<close> once, with them.
\<close>

theorem zero_timeout_is_absent:
  "(env_WEB3_TIMEOUT X = Some v \<and> parseInt v = Number 0 \<longrightarrow>
      web3timeout (createAsync_options X) = None) \<and>
   (env_WEB3_TIMEOUT X = Some ''15x'' \<longrightarrow> web3timeout (createAsync_options X) = Some (Number 15)) \<and>
   (injector s = None \<longrightarrow>
      createAsync_calls (snd (ensure_injector X s)) = createAsync_calls s @ [createAsync_options X])"
proof (intro conjI impI)
  assume "env_WEB3_TIMEOUT X = Some v \<and> parseInt v = Number 0"
  then show "web3timeout (createAsync_options X) = None"
    by (auto simp add: createAsync_options_def web3timeout_of_def)
next
  assume "env_WEB3_TIMEOUT X = Some ''15x''"
  then show "web3timeout (createAsync_options X) = Some (Number 15)"
    by (simp add: createAsync_options_def web3timeout_of_def parseInt_15x)
next
  assume "injector s = None"
  then show "createAsync_calls (snd (ensure_injector X s)) =
               createAsync_calls s @ [createAsync_options X]"
    by (simp add: ensure_injector_unset split: sum.splits)
qed

text \<open>With \<^verbatim>\<open>WEB3_TIMEOUT=0\<close> and with \<^verbatim>\<open>WEB3_TIMEOUT=15x\<close>.\<close>

theorem zero_timeout_is_absent_witness:
  "env_WEB3_TIMEOUT scenario_collaborators = Some ''0'' \<and> parseInt ''0'' = Number 0 \<and>
   web3timeout (createAsync_options scenario_collaborators) = None \<and>
   env_WEB3_TIMEOUT (scenario_collaborators\<lparr>env_WEB3_TIMEOUT := Some ''15x''\<rparr>) = Some ''15x'' \<and>
   web3timeout (createAsync_options (scenario_collaborators\<lparr>env_WEB3_TIMEOUT := Some ''15x''\<rparr>))
     = Some (Number 15) \<and>
   injector (new_service :: nat service) = None \<and>
   createAsync_calls (snd (ensure_injector scenario_collaborators (new_service :: nat service))) =
     [\<lparr>repositoryPath = ''/repository'', web3timeout = None\<rparr>]"
proof -
  have 1: "env_WEB3_TIMEOUT scenario_collaborators = Some ''0''"
    by (simp add: scenario_collaborators_def)
  have 2: "injector (new_service :: nat service) = None"
    by (simp add: new_service_def)
  have 3: "fileService_repositoryPath scenario_collaborators = ''/repository''"
    by (simp add: scenario_collaborators_def)
  have 4: "createAsync_calls (new_service :: nat service) = []"
    by (simp add: new_service_def)
  from zero_timeout_is_absent [of scenario_collaborators "''0''" "new_service :: nat service"]
    zero_timeout_is_absent [of "scenario_collaborators\<lparr>env_WEB3_TIMEOUT := Some ''15x''\<rparr>"
      "''0''" "new_service :: nat service"]
    1 2 3 4 parseInt_0
  show ?thesis by (simp add: createAsync_options_def)
qed

subsection \<open>Calls that overlap\<close>

lemma begin_call_unset:
  "injector s = None \<Longrightarrow>
   begin_call X s c =
     (Awaiting (Injector_createAsync X (length (createAsync_calls s)) (createAsync_options X)) c,
      s\<lparr>createAsync_calls := createAsync_calls s @ [createAsync_options X]\<rparr>)"
  by (simp add: begin_call_def)

text \<open>Beginning a call does not write the field, so calls that all begin before any
  construction has settled all find the field unset.\<close>

lemma begin_all_unset:
  "injector s = None \<Longrightarrow>
   begin_all X s cs =
     (map (\<lambda>(k, c). Awaiting (Injector_createAsync X k (createAsync_options X)) c)
        (enumerate (length (createAsync_calls s)) cs),
      s\<lparr>createAsync_calls := createAsync_calls s @ replicate (length cs) (createAsync_options X)\<rparr>)"
proof (induction cs arbitrary: s)
  case Nil
  then show ?case by simp
next
  case (Cons c cs)
  let ?s' = "s\<lparr>createAsync_calls := createAsync_calls s @ [createAsync_options X]\<rparr>"
  have "injector ?s' = None" using Cons.prems by simp
  from Cons.IH [OF this] Cons.prems show ?case
    by (simp add: begin_call_unset replicate_app_Cons_same)
qed

text \<open>\<^const>\<open>begin_all\<close> is a run of the service: the calls begin one after the other.\<close>

lemma begin_all_run:
  "begin_all X s cs = (ts, s') \<Longrightarrow>
   rtranclp (step X) (s, pre @ map Called cs) (s', pre @ ts)"
proof (induction cs arbitrary: s ts pre s')
  case Nil
  then show ?case by simp
next
  case (Cons c cs)
  obtain t s1 where b: "begin_call X s c = (t, s1)" by (cases "begin_call X s c")
  obtain ts1 s2 where r: "begin_all X s1 cs = (ts1, s2)" by (cases "begin_all X s1 cs")
  from Cons.prems b r have eq: "ts = t # ts1" "s' = s2" by simp_all
  have "step X (s, pre @ map Called (c # cs)) (s1, (pre @ map Called (c # cs))[length pre := t])"
    by (rule step.begins [where c = c]) (simp_all add: b)
  then have "step X (s, pre @ map Called (c # cs)) (s1, (pre @ [t]) @ map Called cs)"
    by simp
  moreover from Cons.IH [OF r, of "pre @ [t]"]
  have "rtranclp (step X) (s1, (pre @ [t]) @ map Called cs) (s2, (pre @ [t]) @ ts1)" .
  ultimately show ?case using eq by (simp add: converse_rtranclp_into_rtranclp)
qed

lemma settled_with_not_Called: "settled_with X r c \<noteq> Called c'"
  by (simp add: settled_with_def split: sum.splits)

lemma Awaiting_not_settled_with: "Awaiting r' c' \<noteq> settled_with X r c"
  by (simp add: settled_with_def split: sum.splits)

lemma own_construction_nth:
  "own_construction X n cs ts \<longleftrightarrow>
     length ts = length cs \<and>
     (\<forall>i<length cs.
        ts ! i = Awaiting (Injector_createAsync X (n + i) (createAsync_options X)) (cs ! i) \<or>
        ts ! i = settled_with X (Injector_createAsync X (n + i) (createAsync_options X)) (cs ! i))"
  by (auto simp add: own_construction_def list_all2_conv_all_nth nth_enumerate_eq)

text \<open>Once every call has its own construction, every step keeps it so, and no step makes
  another construction: no call is left to begin, and a call that resumes settles with the
  result of the construction it waited for.\<close>

lemma step_own_construction:
  assumes "step X (s, ts) (s', ts')" and "own_construction X n cs ts"
  shows "own_construction X n cs ts' \<and> createAsync_calls s' = createAsync_calls s"
  using assms(1)
proof (cases rule: step.cases)
  case (begins i c t)
  with assms(2) show ?thesis
    by (auto simp add: own_construction_nth settled_with_not_Called)
next
  case (resumes i r c t)
  from resumes assms(2) have "i < length cs"
    by (simp add: own_construction_nth)
  with assms(2)
  have "ts ! i = Awaiting (Injector_createAsync X (n + i) (createAsync_options X)) (cs ! i) \<or>
        ts ! i = settled_with X (Injector_createAsync X (n + i) (createAsync_options X)) (cs ! i)"
    by (simp add: own_construction_nth)
  with resumes
  have rc: "r = Injector_createAsync X (n + i) (createAsync_options X)" "c = cs ! i"
    by (auto simp add: Awaiting_not_settled_with)
  from resumes have t: "t = settled_with X r c"
    and s': "createAsync_calls s' = createAsync_calls s"
    by (auto simp add: resume_call_def split: sum.splits)
  have "own_construction X n cs (ts[i := t])"
    unfolding own_construction_nth
  proof (intro conjI allI impI)
    show "length (ts[i := t]) = length cs"
      using assms(2) by (simp add: own_construction_nth)
  next
    fix j assume j: "j < length cs"
    show "ts[i := t] ! j =
            Awaiting (Injector_createAsync X (n + j) (createAsync_options X)) (cs ! j) \<or>
          ts[i := t] ! j =
            settled_with X (Injector_createAsync X (n + j) (createAsync_options X)) (cs ! j)"
    proof (cases "j = i")
      case True
      with j assms(2) t rc show ?thesis by (simp add: own_construction_nth)
    next
      case False
      with j assms(2) show ?thesis by (simp add: own_construction_nth)
    qed
  qed
  with resumes s' show ?thesis by simp
qed

lemma steps_own_construction:
  assumes "rtranclp (step X) a b" and "own_construction X n cs (snd a)"
  shows "own_construction X n cs (snd b) \<and> createAsync_calls (fst b) = createAsync_calls (fst a)"
  using assms
proof (induction rule: rtranclp_induct)
  case base
  then show ?case by simp
next
  case (step y z)
  from step.IH [OF step.prems] have 1: "own_construction X n cs (snd y)"
    and 2: "createAsync_calls (fst y) = createAsync_calls (fst a)" by simp_all
  from step.hyps(2) have "step X (fst y, snd y) (fst z, snd z)" by simp
  from step_own_construction [OF this 1] 2 show ?case by simp
qed

text \<open>Two calls of \<^verbatim>\<open>inject\<close> on a new service, the second made before the construction
  of the first has settled.\<close>

lemma two_calls_begun:
  "begin_all scenario_collaborators new_service [Inject ''a'', Inject ''b''] =
     ([Awaiting (Inr 0) (Inject ''a''), Awaiting (Inr 1) (Inject ''b'')],
      \<lparr>injector = None, createAsync_calls = [scenario_options, scenario_options]\<rparr>)"
  by (simp add: begin_call_def new_service_def scenario_createAsync_options)
     (simp add: scenario_collaborators_def)

lemma two_calls_settle:
  "rtranclp (step scenario_collaborators)
     (\<lparr>injector = None, createAsync_calls = [scenario_options, scenario_options]\<rparr>,
      [Awaiting (Inr 0) (Inject ''a''), Awaiting (Inr 1) (Inject ''b'')])
     (\<lparr>injector = Some 1, createAsync_calls = [scenario_options, scenario_options]\<rparr>,
      [Settled (Some 0) (Inr ''a''), Settled (Some 1) (Inr ''b'')])"
proof -
  let ?X = scenario_collaborators
  let ?calls = "[scenario_options, scenario_options]"
  have "step ?X
     (\<lparr>injector = None, createAsync_calls = ?calls\<rparr>,
      [Awaiting (Inr 0) (Inject ''a''), Awaiting (Inr 1) (Inject ''b'')])
     (\<lparr>injector = Some 0, createAsync_calls = ?calls\<rparr>,
      [Awaiting (Inr 0) (Inject ''a''), Awaiting (Inr 1) (Inject ''b'')]
        [0 := Settled (Some 0) (Inr ''a'')])"
    by (rule step.resumes [where r = "Inr 0" and c = "Inject ''a''"])
       (simp_all add: resume_call_def settled_with_def scenario_collaborators_def)
  moreover have "step ?X
     (\<lparr>injector = Some 0, createAsync_calls = ?calls\<rparr>,
      [Settled (Some 0) (Inr ''a''), Awaiting (Inr 1) (Inject ''b'')])
     (\<lparr>injector = Some 1, createAsync_calls = ?calls\<rparr>,
      [Settled (Some 0) (Inr ''a''), Awaiting (Inr 1) (Inject ''b'')]
        [1 := Settled (Some 1) (Inr ''b'')])"
    by (rule step.resumes [where r = "Inr 1" and c = "Inject ''b''"])
       (simp_all add: resume_call_def settled_with_def scenario_collaborators_def)
  ultimately show ?thesis
    by (simp add: rtranclp.rtrancl_into_rtrancl)
qed

text \<open>
  C1 says that any number of concurrent first calls construct exactly one injector, which
  all callers use. They do not: of two calls of \<^verbatim>\<open>inject\<close> on a new service, the second
  made before the construction of the first has settled, each finds the field unset and
  calls \<^verbatim>\<open>Injector.createAsync\<close>. Two injectors are constructed, the first caller uses the
  injector \<open>0\<close> and the second the injector \<open>1\<close>, and the field ends with the injector \<open>1\<close>.
\<close>

theorem two_concurrent_calls_construct_two_injectors:
  "rtranclp (step scenario_collaborators)
     (new_service, [Called (Inject ''a''), Called (Inject ''b'')])
     (\<lparr>injector = Some 1, createAsync_calls = [scenario_options, scenario_options]\<rparr>,
      [Settled (Some 0) (Inr ''a''), Settled (Some 1) (Inr ''b'')]) \<and>
   length (createAsync_calls
     \<lparr>injector = Some (1::nat), createAsync_calls = [scenario_options, scenario_options]\<rparr>) = 2"
proof -
  from begin_all_run [OF two_calls_begun, of "[]"]
  have "rtranclp (step scenario_collaborators)
     (new_service, [Called (Inject ''a''), Called (Inject ''b'')])
     (\<lparr>injector = None, createAsync_calls = [scenario_options, scenario_options]\<rparr>,
      [Awaiting (Inr 0) (Inject ''a''), Awaiting (Inr 1) (Inject ''b'')])"
    by simp
  from rtranclp_trans [OF this two_calls_settle] show ?thesis by simp
qed

text \<open>
  C1, amended. Let calls of the four methods be made on a service whose field is unset, each
  before any construction has settled (this is a run of the service). Then every call makes
  a construction of its own: as many are made as there are calls; and however the
  constructions settle afterwards, no further one is made, and every caller is either still
  waiting for its own construction or has settled with it: forwarded to the injector it
  returned, or failed with the error it threw. One injector for all callers needs calls that
  do not overlap.
\<close>

theorem overlapping_calls_each_construct_an_injector:
  assumes "injector s = None"
    and "begin_all X s cs = (ts, s1)"
    and "rtranclp (step X) (s1, ts) (s2, ts2)"
  shows "rtranclp (step X) (s, map Called cs) (s1, ts) \<and>
         createAsync_calls s2 = createAsync_calls s @ replicate (length cs) (createAsync_options X) \<and>
         own_construction X (length (createAsync_calls s)) cs ts2"
proof -
  from begin_all_run [OF assms(2), of "[]"]
  have run: "rtranclp (step X) (s, map Called cs) (s1, ts)" by simp
  from begin_all_unset [OF assms(1), of X cs] assms(2)
  have ts: "ts = map (\<lambda>(k, c). Awaiting (Injector_createAsync X k (createAsync_options X)) c)
        (enumerate (length (createAsync_calls s)) cs)"
    and s1: "createAsync_calls s1 =
        createAsync_calls s @ replicate (length cs) (createAsync_options X)"
    by simp_all
  have "own_construction X (length (createAsync_calls s)) cs ts"
    by (simp add: own_construction_nth ts nth_enumerate_eq)
  from steps_own_construction [OF assms(3), of "length (createAsync_calls s)" cs] this
  have "own_construction X (length (createAsync_calls s)) cs ts2"
    and "createAsync_calls s2 = createAsync_calls s1" by simp_all
  with run s1 show ?thesis by simp
qed

text \<open>The two calls above, after both constructions have settled.\<close>

theorem overlapping_calls_each_construct_an_injector_witness:
  "injector (new_service :: nat service) = None \<and>
   begin_all scenario_collaborators new_service [Inject ''a'', Inject ''b''] =
     ([Awaiting (Inr 0) (Inject ''a''), Awaiting (Inr 1) (Inject ''b'')],
      \<lparr>injector = None, createAsync_calls = [scenario_options, scenario_options]\<rparr>) \<and>
   rtranclp (step scenario_collaborators)
     (\<lparr>injector = None, createAsync_calls = [scenario_options, scenario_options]\<rparr>,
      [Awaiting (Inr 0) (Inject ''a''), Awaiting (Inr 1) (Inject ''b'')])
     (\<lparr>injector = Some 1, createAsync_calls = [scenario_options, scenario_options]\<rparr>,
      [Settled (Some 0) (Inr ''a''), Settled (Some 1) (Inr ''b'')]) \<and>
   createAsync_calls
     \<lparr>injector = Some (1::nat), createAsync_calls = [scenario_options, scenario_options]\<rparr> =
     createAsync_calls (new_service :: nat service) @
       replicate (length [Inject ''a'', Inject ''b'']) (createAsync_options scenario_collaborators) \<and>
   own_construction scenario_collaborators (length (createAsync_calls (new_service :: nat service)))
     [Inject ''a'', Inject ''b''] [Settled (Some 0) (Inr ''a''), Settled (Some 1) (Inr ''b'')]"
proof -
  have 1: "injector (new_service :: nat service) = None"
    by (simp add: new_service_def)
  from overlapping_calls_each_construct_an_injector [OF 1 two_calls_begun two_calls_settle]
    1 two_calls_begun two_calls_settle
  show ?thesis by blast
qed

end
